theory Spec2Isabelle
  imports Complex_Main "HOL-Library.Sublist"
begin

section \<open>JavaScript values used by the route handlers\<close>

text \<open>
  The handlers of \<^verbatim>\<open>src/models/ContactRequest.js\<close> apply \<^verbatim>\<open>!\<close>, \<^verbatim>\<open><\<close>, \<^verbatim>\<open>>\<close>
  and \<^verbatim>\<open>parseInt\<close> to request fields, so the fields are modelled as JavaScript values.
  A number is \<^verbatim>\<open>NaN\<close>, an infinity, or a finite value given by the rational it denotes:
  IEEE-754 rounding is not modelled (a decimal literal denotes its exact value, and a
  quotient is the exact quotient). A string is a list of code units below 256. Objects and
  arrays are not modelled.
\<close>

datatype jsnum = NaN | NegInf | Num rat | PosInf

datatype jsval = JUndefined | JNull | JBool bool | JNumber jsnum | JString string

text \<open>\<^verbatim>\<open>ToBoolean\<close>: the test behind \<^verbatim>\<open>!x\<close> and \<^verbatim>\<open>if (x)\<close>.\<close>

fun truthy :: "jsval \<Rightarrow> bool" where
  "truthy JUndefined = False"
| "truthy JNull = False"
| "truthy (JBool b) = b"
| "truthy (JNumber n) = (n \<noteq> NaN \<and> n \<noteq> Num 0)"
| "truthy (JString s) = (s \<noteq> [])"

text \<open>The comparison \<^verbatim>\<open>x < y\<close> on numbers: false as soon as one side is \<^verbatim>\<open>NaN\<close>.\<close>

fun num_lt :: "jsnum \<Rightarrow> jsnum \<Rightarrow> bool" where
  "num_lt NaN y = False"
| "num_lt x NaN = False"
| "num_lt PosInf y = False"
| "num_lt x NegInf = False"
| "num_lt NegInf y = True"
| "num_lt x PosInf = True"
| "num_lt (Num a) (Num b) = (a < b)"

fun num_neg :: "jsnum \<Rightarrow> jsnum" where
  "num_neg NaN = NaN"
| "num_neg NegInf = PosInf"
| "num_neg PosInf = NegInf"
| "num_neg (Num a) = Num (- a)"

subsection \<open>Characters and digits\<close>

text \<open>White space and line terminators among the code units below 256
  (TAB, LF, VT, FF, CR, SP, NBSP).\<close>

definition isWhiteSpace :: "char \<Rightarrow> bool" where
  "isWhiteSpace c = (of_char c \<in> {9, 10, 11, 12, 13, 32, 160 :: nat})"

definition trim :: "string \<Rightarrow> string" where
  "trim s = rev (dropWhile isWhiteSpace (rev (dropWhile isWhiteSpace s)))"

text \<open>The value of a digit or letter as a digit: \<^verbatim>\<open>0-9\<close>, then \<^verbatim>\<open>a-z\<close> and
  \<^verbatim>\<open>A-Z\<close> from ten on.\<close>

definition digitOf :: "char \<Rightarrow> nat option" where
  "digitOf c =
     (let n = (of_char c :: nat) in
      if 48 \<le> n \<and> n \<le> 57 then Some (n - 48)
      else if 97 \<le> n \<and> n \<le> 122 then Some (n - 87)
      else if 65 \<le> n \<and> n \<le> 90 then Some (n - 55)
      else None)"

definition isRadixDigit :: "nat \<Rightarrow> char \<Rightarrow> bool" where
  "isRadixDigit R c = (case digitOf c of None \<Rightarrow> False | Some d \<Rightarrow> d < R)"

definition digitsValue :: "nat \<Rightarrow> string \<Rightarrow> nat" where
  "digitsValue R cs = foldl (\<lambda>acc c. R * acc + (case digitOf c of None \<Rightarrow> 0 | Some d \<Rightarrow> d)) 0 cs"

definition pow10 :: "int \<Rightarrow> rat" where
  "pow10 e = (if 0 \<le> e then 10 ^ nat e else 1 / 10 ^ nat (- e))"

subsection \<open>\<^verbatim>\<open>ToNumber\<close>\<close>

text \<open>\<^verbatim>\<open>ExponentPart\<close> of a decimal literal, which must reach the end of the string:
  nothing, or \<^verbatim>\<open>e\<close>/\<^verbatim>\<open>E\<close>, an optional sign and at least one digit.\<close>

fun ExponentPart :: "string \<Rightarrow> int option" where
  "ExponentPart [] = Some 0"
| "ExponentPart (c # r) =
     (if c = CHR ''e'' \<or> c = CHR ''E'' then
        (let neg = (case r of [] \<Rightarrow> False | s # _ \<Rightarrow> s = CHR ''-'');
             d = (case r of [] \<Rightarrow> [] | s # t \<Rightarrow> if s = CHR ''+'' \<or> s = CHR ''-'' then t else r)
         in if d \<noteq> [] \<and> list_all (isRadixDigit 10) d
            then Some ((if neg then - 1 else 1) * int (digitsValue 10 d))
            else None)
      else None)"

text \<open>\<^verbatim>\<open>StrUnsignedDecimalLiteral\<close>: \<^verbatim>\<open>Infinity\<close>, or digits with an optional fraction
  and exponent; at least one digit before or after the point.\<close>

definition StrUnsignedDecimalLiteral :: "string \<Rightarrow> jsnum" where
  "StrUnsignedDecimalLiteral s =
     (if s = ''Infinity'' then PosInf
      else
        let ip = takeWhile (isRadixDigit 10) s;
            r1 = dropWhile (isRadixDigit 10) s;
            hasDot = (case r1 of [] \<Rightarrow> False | c # _ \<Rightarrow> c = CHR ''.'');
            r2 = (if hasDot then tl r1 else r1);
            fp = (if hasDot then takeWhile (isRadixDigit 10) r2 else []);
            r3 = (if hasDot then dropWhile (isRadixDigit 10) r2 else r2)
        in if ip = [] \<and> fp = [] then NaN
           else case ExponentPart r3 of
                  None \<Rightarrow> NaN
                | Some e \<Rightarrow> Num (of_nat (digitsValue 10 (ip @ fp)) * pow10 (e - int (length fp))))"

text \<open>\<^verbatim>\<open>NonDecimalIntegerLiteral\<close>: the radix of a \<^verbatim>\<open>0x\<close>, \<^verbatim>\<open>0o\<close> or \<^verbatim>\<open>0b\<close> prefix.\<close>

fun nonDecimalPrefix :: "string \<Rightarrow> (nat \<times> string) option" where
  "nonDecimalPrefix (a # b # r) =
     (if a \<noteq> CHR ''0'' then None
      else if b = CHR ''x'' \<or> b = CHR ''X'' then Some (16, r)
      else if b = CHR ''o'' \<or> b = CHR ''O'' then Some (8, r)
      else if b = CHR ''b'' \<or> b = CHR ''B'' then Some (2, r)
      else None)"
| "nonDecimalPrefix s = None"

text \<open>\<^verbatim>\<open>StringToNumber\<close>: the trimmed string is empty (zero), a non-decimal integer
  literal (unsigned), or a signed decimal literal; anything else is \<^verbatim>\<open>NaN\<close>.\<close>

definition StringToNumber :: "string \<Rightarrow> jsnum" where
  "StringToNumber str =
     (let s = trim str in
      if s = [] then Num 0
      else case nonDecimalPrefix s of
             Some (R, ds) \<Rightarrow>
               if ds \<noteq> [] \<and> list_all (isRadixDigit R) ds then Num (of_nat (digitsValue R ds)) else NaN
           | None \<Rightarrow>
               (case s of
                  [] \<Rightarrow> Num 0
                | c # r \<Rightarrow>
                    if c = CHR ''+'' then StrUnsignedDecimalLiteral r
                    else if c = CHR ''-'' then num_neg (StrUnsignedDecimalLiteral r)
                    else StrUnsignedDecimalLiteral s))"

fun ToNumber :: "jsval \<Rightarrow> jsnum" where
  "ToNumber JUndefined = NaN"
| "ToNumber JNull = Num 0"
| "ToNumber (JBool b) = Num (if b then 1 else 0)"
| "ToNumber (JNumber n) = n"
| "ToNumber (JString s) = StringToNumber s"

text \<open>\<^verbatim>\<open>x < y\<close> where one operand is a number literal, as in every comparison of the
  source: both sides are converted with \<^verbatim>\<open>ToNumber\<close>.\<close>

definition js_lt :: "jsval \<Rightarrow> jsval \<Rightarrow> bool" where
  "js_lt x y = num_lt (ToNumber x) (ToNumber y)"

subsection \<open>\<^verbatim>\<open>parseInt\<close>\<close>

text \<open>\<^verbatim>\<open>parseInt(string)\<close> with no radix: leading white space is skipped, a sign is read,
  a \<^verbatim>\<open>0x\<close> prefix selects radix 16, and the longest run of digits is the value;
  no digit gives \<^verbatim>\<open>NaN\<close>. What follows the digits is ignored.\<close>

definition parseInt_string :: "string \<Rightarrow> jsnum" where
  "parseInt_string str =
     (let s = dropWhile isWhiteSpace str;
          neg = (case s of [] \<Rightarrow> False | c # _ \<Rightarrow> c = CHR ''-'');
          s1 = (case s of [] \<Rightarrow> [] | c # r \<Rightarrow> if c = CHR ''+'' \<or> c = CHR ''-'' then r else s);
          hex = (case s1 of a # b # _ \<Rightarrow> a = CHR ''0'' \<and> (b = CHR ''x'' \<or> b = CHR ''X'') | _ \<Rightarrow> False);
          R = (if hex then 16 else 10);
          s2 = (if hex then drop 2 s1 else s1);
          Z = takeWhile (isRadixDigit R) s2
      in if Z = [] then NaN
         else Num (of_int ((if neg then - 1 else 1) * int (digitsValue R Z))))"

text \<open>\<^verbatim>\<open>parseInt(number)\<close> reads the decimal rendering of the number. From \<^verbatim>\<open>1e-6\<close>
  up to (not including) \<^verbatim>\<open>1e21\<close> the rendering is positional, and the result is the
  number truncated toward zero. Outside that range the rendering is in exponent notation
  (\<^verbatim>\<open>5e-7\<close>, \<^verbatim>\<open>1.5e+21\<close>) and the result is its leading digit.\<close>

function leadingDigitInt :: "int \<Rightarrow> int" where
  "leadingDigitInt n = (if n < 10 then n else leadingDigitInt (n div 10))"
  by pat_completeness auto
termination
  by (relation "measure nat") auto

function leadingDigitFrac :: "int \<Rightarrow> int \<Rightarrow> int" where
  "leadingDigitFrac a b = (if a \<le> 0 \<or> b \<le> a then a div b else leadingDigitFrac (10 * a) b)"
  by pat_completeness auto
termination
  by (relation "measure (\<lambda>(a, b). nat (b - a))") auto

definition truncToZero :: "rat \<Rightarrow> int" where
  "truncToZero r = (if r < 0 then - \<lfloor>- r\<rfloor> else \<lfloor>r\<rfloor>)"

definition parseInt_number :: "rat \<Rightarrow> jsnum" where
  "parseInt_number r =
     (if r = 0 then Num 0
      else if 1 / 10 ^ 6 \<le> \<bar>r\<bar> \<and> \<bar>r\<bar> < 10 ^ 21 then Num (of_int (truncToZero r))
      else
        let d = (if 10 ^ 21 \<le> \<bar>r\<bar> then leadingDigitInt \<lfloor>\<bar>r\<bar>\<rfloor>
                 else case quotient_of \<bar>r\<bar> of (a, b) \<Rightarrow> leadingDigitFrac a b)
        in Num (of_int ((if r < 0 then - 1 else 1) * d)))"

text \<open>\<^verbatim>\<open>parseInt\<close> converts its argument to a string first: \<^verbatim>\<open>undefined\<close>, \<^verbatim>\<open>null\<close>,
  \<^verbatim>\<open>true\<close>, \<^verbatim>\<open>false\<close>, \<^verbatim>\<open>NaN\<close> and \<^verbatim>\<open>Infinity\<close> start with no digit.\<close>

fun parseInt :: "jsval \<Rightarrow> jsnum" where
  "parseInt (JString s) = parseInt_string s"
| "parseInt (JNumber (Num r)) = parseInt_number r"
| "parseInt v = NaN"

text \<open>\<^verbatim>\<open>totalRating / n\<close> for an integer sum and a length: \<^verbatim>\<open>0 / 0\<close> is \<^verbatim>\<open>NaN\<close>.\<close>

definition js_div :: "int \<Rightarrow> nat \<Rightarrow> jsnum" where
  "js_div totalRating n =
     (if n = 0 then (if totalRating = 0 then NaN else if totalRating < 0 then NegInf else PosInf)
      else Num (of_int totalRating / of_nat n))"


section \<open>The document store\<close>

text \<open>
  Identifiers are strings compared by equality; the cast of a string to an ObjectId that
  the store library performs is not modelled, every string is taken as a well-formed
  identifier. A collection is the list of its documents in insertion order.
\<close>

type_synonym oid = string

text \<open>Modelled from the spec: the User schema is not part of the source. The fields are
  those the handlers read and write.\<close>

record user =
  u_id :: oid
  role :: string
  fullName :: string
  email :: string
  phone :: string
  unlockedAgents :: "oid list"
  u_rating :: jsnum
  totalRatings :: nat

text \<open>Modelled from the spec: the Property schema is not part of the source. The fields
  are those the handlers read; each is taken to be present on every document.\<close>

record property =
  p_id :: oid
  title :: string
  p_agent :: oid
  location_state :: string
  location_area :: string
  price :: rat
  propertyType :: string
  p_status :: string
  p_createdAt :: nat

text \<open>\<^verbatim>\<open>contactRequestSchema\<close>: three required references, a status that defaults to
  \<^verbatim>\<open>pending\<close>, notes that default to the empty string, and the two timestamps.\<close>

datatype request_status = Pending | Contacted | Closed

record contact_request =
  cr_client :: oid
  cr_agent :: oid
  cr_property :: oid
  cr_status :: request_status
  cr_notes :: string
  cr_createdAt :: nat
  cr_updatedAt :: nat

text \<open>Modelled from the spec: the Rating schema is not part of the source. The spec gives
  \<^verbatim>\<open>client\<close>, \<^verbatim>\<open>agent\<close>, \<^verbatim>\<open>property\<close> as required references, \<^verbatim>\<open>rating\<close> as an
  integer in [1,5] and \<^verbatim>\<open>comment\<close> as optional text.\<close>

record rating =
  r_client :: oid
  r_agent :: oid
  r_property :: oid
  r_rating :: int
  r_comment :: "string option"

record store =
  users :: "user list"
  properties :: "property list"
  contactRequests :: "contact_request list"
  ratings :: "rating list"

definition User_findById :: "user list \<Rightarrow> oid \<Rightarrow> user option" where
  "User_findById us i = find (\<lambda>u. u_id u = i) us"

definition Property_findById :: "property list \<Rightarrow> oid \<Rightarrow> property option" where
  "Property_findById ps i = find (\<lambda>p. p_id p = i) ps"

definition ContactRequest_findOne :: "contact_request list \<Rightarrow> oid \<Rightarrow> oid \<Rightarrow> oid \<Rightarrow> contact_request option" where
  "ContactRequest_findOne rs c a p = find (\<lambda>r. cr_client r = c \<and> cr_agent r = a \<and> cr_property r = p) rs"

text \<open>\<^verbatim>\<open>Rating.findOne({client, agent, property: propertyId})\<close>. When \<^verbatim>\<open>propertyId\<close> is
  absent the filter asks for a document without a property; \<^verbatim>\<open>property\<close> is required,
  so no stored rating matches.\<close>

definition Rating_findOne :: "rating list \<Rightarrow> oid \<Rightarrow> oid \<Rightarrow> oid option \<Rightarrow> rating option" where
  "Rating_findOne rs c a propertyId =
     (case propertyId of
        None \<Rightarrow> None
      | Some p \<Rightarrow> find (\<lambda>r. r_client r = c \<and> r_agent r = a \<and> r_property r = p) rs)"

definition Rating_find :: "rating list \<Rightarrow> oid \<Rightarrow> rating list" where
  "Rating_find rs a = filter (\<lambda>r. r_agent r = a) rs"

text \<open>The document \<^verbatim>\<open>new Rating({...})\<close> before it is saved: the property may be absent and
  the rating is whatever \<^verbatim>\<open>parseInt\<close> returned.\<close>

record rating_draft =
  d_client :: oid
  d_agent :: oid
  d_property :: "oid option"
  d_rating :: jsnum
  d_comment :: "string option"

text \<open>The exceptions that reach a handler's \<^verbatim>\<open>catch\<close>.\<close>

datatype exn = TypeError | SyntaxError | CastError | ValidationError

text \<open>Modelled from the spec: \<^verbatim>\<open>save\<close> on a Rating validates the draft against the
  schema above and rejects it when the property is absent or the rating is not an
  integer in [1,5]; otherwise the document is appended to the collection.\<close>

definition Rating_save :: "rating list \<Rightarrow> rating_draft \<Rightarrow> exn + rating list" where
  "Rating_save rs d =
     (case (d_property d, d_rating d) of
        (Some p, Num v) \<Rightarrow>
          if v = of_int \<lfloor>v\<rfloor> \<and> 1 \<le> v \<and> v \<le> 5
          then Inr (rs @ [\<lparr>r_client = d_client d, r_agent = d_agent d, r_property = p,
                           r_rating = \<lfloor>v\<rfloor>, r_comment = d_comment d\<rparr>])
          else Inl ValidationError
      | _ \<Rightarrow> Inl ValidationError)"

text \<open>\<^verbatim>\<open>agent.save()\<close> after the two assignments: the document with the agent's
  \<^verbatim>\<open>_id\<close> gets the new \<^verbatim>\<open>rating\<close> and \<^verbatim>\<open>totalRatings\<close>.\<close>

definition User_save_rating :: "user list \<Rightarrow> oid \<Rightarrow> jsnum \<Rightarrow> nat \<Rightarrow> user list" where
  "User_save_rating us i avgRating n =
     map (\<lambda>u. if u_id u = i then u\<lparr>u_rating := avgRating, totalRatings := n\<rparr> else u) us"

section \<open>Responses and effects\<close>

datatype json_body = JsonError string | JsonSuccess string

text \<open>\<^verbatim>\<open>res.status(n).json(body)\<close>; \<^verbatim>\<open>res.json(body)\<close> has status 200.\<close>

datatype json_response = Json nat json_body

datatype flash = error_msg string | success_msg string

text \<open>\<^verbatim>\<open>req.flash(...)\<close> followed by \<^verbatim>\<open>res.redirect(path)\<close>, or \<^verbatim>\<open>res.render(view, data)\<close>.\<close>

datatype 'v page = Redirect flash string | Render string 'v

record email_content =
  ec_clientName :: string
  ec_clientEmail :: string
  ec_clientPhone :: string
  ec_agentName :: string
  ec_agentEmail :: string
  ec_propertyTitle :: string
  ec_area :: string
  ec_state :: string
  ec_price :: rat
  ec_time :: nat

record mail =
  mail_from :: string
  mail_to :: string
  mail_subject :: string
  mail_html :: email_content

text \<open>The effects a handler leaves besides the store: each call of \<^verbatim>\<open>sendMail\<close> with
  whether it resolved, and each \<^verbatim>\<open>console.error\<close>, in order.\<close>

datatype event = SendMail mail bool | ConsoleError string

record 'r outcome =
  response :: 'r
  db :: store
  trace :: "event list"

text \<open>The mail transport \<^verbatim>\<open>req.app.locals.emailTransporter\<close>: absent, or a \<^verbatim>\<open>sendMail\<close>
  that resolves (\<open>True\<close>) or rejects (\<open>False\<close>) for each mail.\<close>

type_synonym transporter = "(mail \<Rightarrow> bool) option"


section \<open>POST /contact-agent\<close>

definition adminEmails :: "string list" where
  "adminEmails = [''anthonyajibola65@gmail.com'', ''Kennethuwota12@gmail.com'']"

text \<open>One turn of the loop over \<^verbatim>\<open>adminEmails\<close>: the \<^verbatim>\<open>try\<close> around \<^verbatim>\<open>sendMail\<close>
  catches a rejected send, and also the TypeError of calling \<^verbatim>\<open>sendMail\<close> on an
  absent transport; the \<^verbatim>\<open>catch\<close> logs and the loop goes on.\<close>

definition sendOne :: "transporter \<Rightarrow> mail \<Rightarrow> event list" where
  "sendOne emailTransporter m =
     (case emailTransporter of
        None \<Rightarrow> [ConsoleError ''Email sending error:'']
      | Some sendMail \<Rightarrow>
          if sendMail m then [SendMail m True]
          else [SendMail m False, ConsoleError ''Email sending error:''])"

fun sendAll :: "transporter \<Rightarrow> (string \<Rightarrow> mail) \<Rightarrow> string list \<Rightarrow> event list \<Rightarrow> event list" where
  "sendAll emailTransporter mk [] tr = tr"
| "sendAll emailTransporter mk (e # es) tr =
     sendAll emailTransporter mk es (tr @ sendOne emailTransporter (mk e))"

text \<open>\<^verbatim>\<open>process.env.EMAIL_USER || 'noreply@homlet.com'\<close>.\<close>

definition mailFrom :: "string option \<Rightarrow> string" where
  "mailFrom EMAIL_USER =
     (case EMAIL_USER of
        None \<Rightarrow> ''noreply@homlet.com''
      | Some a \<Rightarrow> if a = [] then ''noreply@homlet.com'' else a)"

text \<open>\<^verbatim>\<open>!x\<close> on an identifier of the request body: absent, or the empty string.\<close>

definition missing :: "string option \<Rightarrow> bool" where
  "missing x = (case x of None \<Rightarrow> True | Some i \<Rightarrow> i = [])"

definition reply :: "store \<Rightarrow> 'r \<Rightarrow> 'r outcome" where
  "reply s r = \<lparr>response = r, db = s, trace = []\<rparr>"

text \<open>The mail sent to one recipient: \<^verbatim>\<open>emailContent\<close> with the fields it interpolates,
  and the argument of \<^verbatim>\<open>sendMail\<close>. The subject line is the source's without its
  leading pictograph (a code unit above 255).\<close>

definition emailContent :: "user \<Rightarrow> user \<Rightarrow> property \<Rightarrow> nat \<Rightarrow> email_content" where
  "emailContent client agent property now =
     \<lparr>ec_clientName = fullName client, ec_clientEmail = email client,
      ec_clientPhone = phone client, ec_agentName = fullName agent,
      ec_agentEmail = email agent, ec_propertyTitle = title property,
      ec_area = location_area property, ec_state = location_state property,
      ec_price = price property, ec_time = now\<rparr>"

definition notification :: "string option \<Rightarrow> user \<Rightarrow> user \<Rightarrow> property \<Rightarrow> nat \<Rightarrow> string \<Rightarrow> mail" where
  "notification EMAIL_USER client agent property now e =
     \<lparr>mail_from = mailFrom EMAIL_USER, mail_to = e,
      mail_subject = ''New Contact Request - '' @ fullName client @ '' contacted '' @ fullName agent,
      mail_html = emailContent client agent property now\<rparr>"

text \<open>
  The handler of \<^verbatim>\<open>router.post('/contact-agent', ...)\<close>. \<open>now\<close> is the clock,
  \<open>sessionUser\<close> is \<^verbatim>\<open>req.session.user._id\<close>, \<open>agentId\<close> and \<open>propertyId\<close> are the
  fields of \<^verbatim>\<open>req.body\<close>. The calls to the store do not fail and the documents have
  the fields the mail interpolates, so the outer \<^verbatim>\<open>catch\<close> (status 500) is not reached.
\<close>

definition createRequest ::
  "nat \<Rightarrow> transporter \<Rightarrow> string option \<Rightarrow> store \<Rightarrow> oid \<Rightarrow> string option \<Rightarrow> string option
     \<Rightarrow> json_response outcome" where
  "createRequest now emailTransporter EMAIL_USER s sessionUser agentId propertyId =
     (if missing agentId \<or> missing propertyId
      then reply s (Json 400 (JsonError ''Missing agent or property ID''))
      else
        case ContactRequest_findOne (contactRequests s) sessionUser (the agentId) (the propertyId) of
          Some existingRequest \<Rightarrow>
            reply s (Json 400 (JsonError ''You have already contacted this agent for this property''))
        | None \<Rightarrow>
            (case (User_findById (users s) sessionUser,
                   User_findById (users s) (the agentId),
                   Property_findById (properties s) (the propertyId)) of
               (Some client, Some agent, Some property) \<Rightarrow>
                 let contactRequest =
                       \<lparr>cr_client = u_id client, cr_agent = u_id agent, cr_property = p_id property,
                        cr_status = Pending, cr_notes = [], cr_createdAt = now, cr_updatedAt = now\<rparr>
                 in \<lparr>response = Json 200 (JsonSuccess ''Contact request sent successfully''),
                     db = s\<lparr>contactRequests := contactRequests s @ [contactRequest]\<rparr>,
                     trace = sendAll emailTransporter
                               (notification EMAIL_USER client agent property now) adminEmails []\<rparr>
             | _ \<Rightarrow> reply s (Json 404 (JsonError ''Client, agent, or property not found''))))"

section \<open>GET /rate/:agentId\<close>



section \<open>POST /rate/:agentId\<close>

text \<open>
  The handler of \<^verbatim>\<open>router.post('/rate/:agentId', ...)\<close>. \<open>agentId\<close> is the route
  parameter; \<open>rating\<close>, \<open>comment\<close> and \<open>propertyId\<close> are the fields of \<^verbatim>\<open>req.body\<close>.
  A failed \<^verbatim>\<open>save\<close>, and the TypeError of assigning to an agent that was not found, are
  caught by the handler's \<^verbatim>\<open>catch\<close>; the rating saved before the TypeError stays.
\<close>

definition submitRating ::
  "store \<Rightarrow> oid \<Rightarrow> oid \<Rightarrow> jsval \<Rightarrow> string option \<Rightarrow> string option \<Rightarrow> unit page outcome" where
  "submitRating s sessionUser agentId rating comment propertyId =
     (if \<not> truthy rating \<or> js_lt rating (JNumber (Num 1)) \<or> js_lt (JNumber (Num 5)) rating
      then reply s (Redirect (error_msg ''Please provide a valid rating (1-5)'')
                      (''/client/rate/'' @ agentId))
      else
        case Rating_findOne (ratings s) sessionUser agentId propertyId of
          Some existingRating \<Rightarrow>
            reply s (Redirect (error_msg ''You have already rated this agent for this property'')
                       ''/client/dashboard'')
        | None \<Rightarrow>
            (case Rating_save (ratings s)
                    \<lparr>d_client = sessionUser, d_agent = agentId, d_property = propertyId,
                     d_rating = parseInt rating, d_comment = comment\<rparr> of
               Inl err \<Rightarrow>
                 \<lparr>response = Redirect (error_msg ''Error submitting rating'') ''/client/dashboard'',
                  db = s, trace = [ConsoleError ''Submit rating error:'']\<rparr>
             | Inr saved \<Rightarrow>
                 let s1 = s\<lparr>ratings := saved\<rparr> in
                 (case User_findById (users s1) agentId of
                    None \<Rightarrow>
                      \<lparr>response = Redirect (error_msg ''Error submitting rating'') ''/client/dashboard'',
                       db = s1, trace = [ConsoleError ''Submit rating error:'']\<rparr>
                  | Some agent \<Rightarrow>
                      let allRatings = Rating_find (ratings s1) agentId;
                          totalRating = foldl (\<lambda>sum r. sum + r_rating r) 0 allRatings;
                          avgRating = js_div totalRating (length allRatings)
                      in reply
                           (s1\<lparr>users := User_save_rating (users s1) (u_id agent) avgRating
                                             (length allRatings)\<rparr>)
                           (Redirect (success_msg ''Rating submitted successfully!'')
                              ''/client/dashboard''))))"


section \<open>GET /dashboard\<close>

subsection \<open>Regular expressions\<close>









subsection \<open>The filter and the query\<close>


record filter =
  f_status :: string
  f_location_state :: "(string \<Rightarrow> bool) option"
  f_location_area :: "(string \<Rightarrow> bool) option"
  f_price_gte :: "jsnum option"
  f_price_lte :: "jsnum option"
  f_propertyType :: "string option"











section \<open>Notions used in the statements\<close>

subsection \<open>The responses, under the names of the specification's error kinds\<close>

definition MissingField :: json_response where
  "MissingField = Json 400 (JsonError ''Missing agent or property ID'')"

definition DuplicateRequest :: json_response where
  "DuplicateRequest = Json 400 (JsonError ''You have already contacted this agent for this property'')"

definition NotFound :: json_response where
  "NotFound = Json 404 (JsonError ''Client, agent, or property not found'')"

definition RequestSent :: json_response where
  "RequestSent = Json 200 (JsonSuccess ''Contact request sent successfully'')"

definition InvalidRating :: "oid \<Rightarrow> unit page" where
  "InvalidRating agentId =
     Redirect (error_msg ''Please provide a valid rating (1-5)'') (''/client/rate/'' @ agentId)"


definition RatingSubmitted :: "unit page" where
  "RatingSubmitted = Redirect (success_msg ''Rating submitted successfully!'') ''/client/dashboard''"


subsection \<open>Triples and their uniqueness\<close>

definition has_request :: "store \<Rightarrow> oid \<Rightarrow> oid \<Rightarrow> oid \<Rightarrow> bool" where
  "has_request s c a p =
     (\<exists>r \<in> set (contactRequests s). cr_client r = c \<and> cr_agent r = a \<and> cr_property r = p)"

definition has_rating :: "store \<Rightarrow> oid \<Rightarrow> oid \<Rightarrow> oid \<Rightarrow> bool" where
  "has_rating s c a p =
     (\<exists>r \<in> set (ratings s). r_client r = c \<and> r_agent r = a \<and> r_property r = p)"

definition cr_triple :: "contact_request \<Rightarrow> oid \<times> oid \<times> oid" where
  "cr_triple r = (cr_client r, cr_agent r, cr_property r)"

definition r_triple :: "rating \<Rightarrow> oid \<times> oid \<times> oid" where
  "r_triple r = (r_client r, r_agent r, r_property r)"

definition unique_triples :: "store \<Rightarrow> bool" where
  "unique_triples s =
     (distinct (map cr_triple (contactRequests s)) \<and> distinct (map r_triple (ratings s)))"

text \<open>The contact request a successful \<open>createRequest\<close> persists.\<close>

definition newRequest :: "oid \<Rightarrow> oid \<Rightarrow> oid \<Rightarrow> nat \<Rightarrow> contact_request" where
  "newRequest c a p now =
     \<lparr>cr_client = c, cr_agent = a, cr_property = p, cr_status = Pending, cr_notes = [],
      cr_createdAt = now, cr_updatedAt = now\<rparr>"

subsection \<open>Ratings and the aggregate\<close>

definition Unexpected :: "unit page" where
  "Unexpected = Redirect (error_msg ''Error submitting rating'') ''/client/dashboard''"

text \<open>The rating a successful \<open>submitRating\<close> persists.\<close>

definition newRating :: "oid \<Rightarrow> oid \<Rightarrow> oid \<Rightarrow> int \<Rightarrow> string option \<Rightarrow> rating" where
  "newRating c a p k comment =
     \<lparr>r_client = c, r_agent = a, r_property = p, r_rating = k, r_comment = comment\<rparr>"

fun within_1_5 :: "jsnum \<Rightarrow> bool" where
  "within_1_5 (Num r) = (1 \<le> r \<and> r \<le> 5)"
| "within_1_5 n = False"

definition ratings_of :: "store \<Rightarrow> oid \<Rightarrow> int list" where
  "ratings_of s a = map r_rating (filter (\<lambda>r. r_agent r = a) (ratings s))"

definition mean :: "int list \<Rightarrow> rat" where
  "mean vs = of_int (sum_list vs) / of_nat (length vs)"



subsection \<open>The dashboard's selection\<close>







subsection \<open>Rating values the validation rejects\<close>

text \<open>The rating value is absent (\<^verbatim>\<open>undefined\<close> or \<^verbatim>\<open>null\<close>), is \<^verbatim>\<open>NaN\<close>, or has a
  numeric value that is not within [1,5].\<close>

definition invalid_rating :: "jsval \<Rightarrow> bool" where
  "invalid_rating v =
     (v = JUndefined \<or> v = JNull \<or> v = JNumber NaN
      \<or> (ToNumber v \<noteq> NaN \<and> \<not> within_1_5 (ToNumber v)))"

subsection \<open>Reading a trace\<close>

text \<open>The recipients \<^verbatim>\<open>sendMail\<close> was called for, with the outcome of each call, and the
  number of logged errors.\<close>

fun attempts :: "event list \<Rightarrow> (string \<times> bool) list" where
  "attempts [] = []"
| "attempts (SendMail m ok # es) = (mail_to m, ok) # attempts es"
| "attempts (ConsoleError x # es) = attempts es"

fun logged :: "event list \<Rightarrow> nat" where
  "logged [] = 0"
| "logged (SendMail m ok # es) = logged es"
| "logged (ConsoleError x # es) = Suc (logged es)"

subsection \<open>A small store for the examples\<close>

definition exClient :: user where
  "exClient = \<lparr>u_id = ''c1'', role = ''client'', fullName = ''Chidi'', email = ''chidi@example.com'',
                phone = ''0800'', unlockedAgents = [], u_rating = Num 0, totalRatings = 0\<rparr>"

definition exAgent :: user where
  "exAgent = \<lparr>u_id = ''a1'', role = ''agent'', fullName = ''Ada'', email = ''ada@example.com'',
               phone = ''0801'', unlockedAgents = [], u_rating = Num 5, totalRatings = 1\<rparr>"

definition exAgent2 :: user where
  "exAgent2 = \<lparr>u_id = ''a2'', role = ''agent'', fullName = ''Bola'', email = ''bola@example.com'',
                phone = ''0802'', unlockedAgents = [], u_rating = Num 0, totalRatings = 0\<rparr>"

definition exProperty :: property where
  "exProperty = \<lparr>p_id = ''p1'', title = ''Flat'', p_agent = ''a1'', location_state = ''Lagos'',
                  location_area = ''Ikeja'', price = 500, propertyType = ''flat'',
                  p_status = ''active'', p_createdAt = 10\<rparr>"

definition exProperty2 :: property where
  "exProperty2 = \<lparr>p_id = ''p2'', title = ''House'', p_agent = ''a1'', location_state = ''Abuja'',
                   location_area = ''Wuse'', price = 12, propertyType = ''house'',
                   p_status = ''active'', p_createdAt = 20\<rparr>"

text \<open>The client \<^verbatim>\<open>c1\<close> has contacted and rated the agent \<^verbatim>\<open>a1\<close> for the property
  \<^verbatim>\<open>p1\<close>; nobody has rated the agent \<^verbatim>\<open>a2\<close>.\<close>

definition exStore :: store where
  "exStore =
     \<lparr>users = [exClient, exAgent, exAgent2],
      properties = [exProperty, exProperty2],
      contactRequests = [\<lparr>cr_client = ''c1'', cr_agent = ''a1'', cr_property = ''p1'',
                          cr_status = Pending, cr_notes = [], cr_createdAt = 3, cr_updatedAt = 3\<rparr>],
      ratings = [\<lparr>r_client = ''c1'', r_agent = ''a1'', r_property = ''p1'', r_rating = 5,
                  r_comment = None\<rparr>]\<rparr>"


section \<open>Lookups\<close>

lemma User_findById_None: "User_findById us i = None \<longleftrightarrow> i \<notin> set (map u_id us)"
  by (auto simp: User_findById_def find_None_iff)

lemma User_findById_Some: "User_findById us i = Some u \<Longrightarrow> u_id u = i \<and> u \<in> set us"
  by (auto simp: User_findById_def find_Some_iff)

lemma Property_findById_None: "Property_findById ps i = None \<longleftrightarrow> i \<notin> set (map p_id ps)"
  by (auto simp: Property_findById_def find_None_iff)

lemma Property_findById_Some: "Property_findById ps i = Some p \<Longrightarrow> p_id p = i \<and> p \<in> set ps"
  by (auto simp: Property_findById_def find_Some_iff)

lemma ContactRequest_findOne_None:
  "ContactRequest_findOne (contactRequests s) c a p = None \<longleftrightarrow> \<not> has_request s c a p"
  by (auto simp: ContactRequest_findOne_def has_request_def find_None_iff)

lemma User_findById_ex: "i \<in> set (map u_id us) \<Longrightarrow> \<exists>u. User_findById us i = Some u"
  using User_findById_None[of us i] by (cases "User_findById us i") auto

lemma Rating_findOne_None:
  "Rating_findOne (ratings s) c a (Some p) = None \<longleftrightarrow> \<not> has_rating s c a p"
  by (auto simp: Rating_findOne_def has_rating_def find_None_iff)



section \<open>The cases of \<open>createRequest\<close>\<close>

lemma createRequest_missing:
  "missing agentId \<or> missing propertyId \<Longrightarrow>
   createRequest now t env s u agentId propertyId = reply s MissingField"
  by (simp add: createRequest_def MissingField_def)

lemma createRequest_duplicate:
  assumes "a \<noteq> []" "p \<noteq> []" "has_request s u a p"
  shows "createRequest now t env s u (Some a) (Some p) = reply s DuplicateRequest"
proof -
  from assms(3) obtain r where "ContactRequest_findOne (contactRequests s) u a p = Some r"
    using ContactRequest_findOne_None[of s u a p] by (cases "ContactRequest_findOne (contactRequests s) u a p") auto
  with assms(1,2) show ?thesis
    by (simp add: createRequest_def missing_def DuplicateRequest_def)
qed

lemma createRequest_notfound:
  assumes "a \<noteq> []" "p \<noteq> []" "\<not> has_request s u a p"
    and "u \<notin> set (map u_id (users s)) \<or> a \<notin> set (map u_id (users s)) \<or> p \<notin> set (map p_id (properties s))"
  shows "createRequest now t env s u (Some a) (Some p) = reply s NotFound"
proof -
  have none: "ContactRequest_findOne (contactRequests s) u a p = None"
    using assms(3) by (simp add: ContactRequest_findOne_None)
  from assms(4) have "User_findById (users s) u = None \<or> User_findById (users s) a = None
      \<or> Property_findById (properties s) p = None"
    by (simp only: User_findById_None Property_findById_None)
  with assms(1,2) none show ?thesis
    by (auto simp: createRequest_def missing_def NotFound_def split: option.splits)
qed

lemma createRequest_success:
  assumes "a \<noteq> []" "p \<noteq> []" "\<not> has_request s u a p"
    and "u \<in> set (map u_id (users s))" "a \<in> set (map u_id (users s))" "p \<in> set (map p_id (properties s))"
  shows "response (createRequest now t env s u (Some a) (Some p)) = RequestSent"
    and "db (createRequest now t env s u (Some a) (Some p)) =
           s\<lparr>contactRequests := contactRequests s @ [newRequest u a p now]\<rparr>"
proof -
  have none: "ContactRequest_findOne (contactRequests s) u a p = None"
    using assms(3) by (simp add: ContactRequest_findOne_None)
  from assms(4) obtain cl where cl: "User_findById (users s) u = Some cl"
    using User_findById_None[of "users s" u] by (cases "User_findById (users s) u") auto
  from assms(5) obtain ag where ag: "User_findById (users s) a = Some ag"
    using User_findById_None[of "users s" a] by (cases "User_findById (users s) a") auto
  from assms(6) obtain pr where pr: "Property_findById (properties s) p = Some pr"
    using Property_findById_None[of "properties s" p] by (cases "Property_findById (properties s) p") auto
  note ids = User_findById_Some[OF cl] User_findById_Some[OF ag] Property_findById_Some[OF pr]
  show "response (createRequest now t env s u (Some a) (Some p)) = RequestSent"
    using assms(1,2) none cl ag pr
    by (simp add: createRequest_def missing_def RequestSent_def Let_def)
  show "db (createRequest now t env s u (Some a) (Some p)) =
           s\<lparr>contactRequests := contactRequests s @ [newRequest u a p now]\<rparr>"
    using assms(1,2) none cl ag pr ids
    by (simp add: createRequest_def missing_def newRequest_def Let_def)
qed

section \<open>The cases of \<open>submitRating\<close>\<close>



lemma submitRating_invalid:
  assumes "\<not> truthy v \<or> js_lt v (JNumber (Num 1)) \<or> js_lt (JNumber (Num 5)) v"
  shows "submitRating s u a v c p = reply s (InvalidRating a)"
  using assms by (simp add: submitRating_def InvalidRating_def)


lemma foldl_sum: "foldl (\<lambda>sum r. sum + r_rating r) z rs = z + sum_list (map r_rating rs)"
  by (induction rs arbitrary: z) auto

lemma js_div_mean: "vs \<noteq> [] \<Longrightarrow> js_div (sum_list vs) (length vs) = Num (mean vs)"
  by (simp add: js_div_def mean_def)


lemma Rating_save_ok:
  "1 \<le> k \<Longrightarrow> k \<le> 5 \<Longrightarrow>
   Rating_save rs \<lparr>d_client = u, d_agent = a, d_property = Some p, d_rating = Num (of_int k), d_comment = c\<rparr>
     = Inr (rs @ [newRating u a p k c])"
  by (simp add: Rating_save_def newRating_def)

lemma ratings_of_append:
  "ratings_of (s\<lparr>ratings := ratings s @ [newRating u a p k c]\<rparr>) a = ratings_of s a @ [k]"
  by (simp add: ratings_of_def newRating_def)

lemma Rating_find_ratings_of: "map r_rating (Rating_find (ratings s) a) = ratings_of s a"
  by (simp add: Rating_find_def ratings_of_def)

lemma submitRating_accepted:
  assumes valid: "\<not> (\<not> truthy v \<or> js_lt v (JNumber (Num 1)) \<or> js_lt (JNumber (Num 5)) v)"
    and pi: "parseInt v = Num (of_int k)" and k: "1 \<le> k" "k \<le> 5"
    and fresh: "\<not> has_rating s u a p"
  shows "submitRating s u a v c (Some p) =
     (if a \<in> set (map u_id (users s))
      then reply (s\<lparr>ratings := ratings s @ [newRating u a p k c],
                    users := User_save_rating (users s) a (Num (mean (ratings_of s a @ [k])))
                               (Suc (length (ratings_of s a)))\<rparr>) RatingSubmitted
      else \<lparr>response = Unexpected, db = s\<lparr>ratings := ratings s @ [newRating u a p k c]\<rparr>,
            trace = [ConsoleError ''Submit rating error:'']\<rparr>)"
proof -
  have none: "Rating_findOne (ratings s) u a (Some p) = None"
    using fresh by (simp add: Rating_findOne_None)
  let ?rs1 = "ratings s @ [newRating u a p k c]"
  have all: "map r_rating (Rating_find ?rs1 a) = ratings_of s a @ [k]"
    by (simp add: Rating_find_def ratings_of_def newRating_def)
  have len: "length (Rating_find ?rs1 a) = Suc (length (ratings_of s a))"
    using arg_cong[OF all, of length] by simp
  have tot: "foldl (\<lambda>sum r. sum + r_rating r) 0 (Rating_find ?rs1 a) = sum_list (ratings_of s a @ [k])"
    unfolding foldl_sum all by simp
  have avg: "js_div (foldl (\<lambda>sum r. sum + r_rating r) 0 (Rating_find ?rs1 a))
               (length (Rating_find ?rs1 a)) = Num (mean (ratings_of s a @ [k]))"
    unfolding tot len using js_div_mean[of "ratings_of s a @ [k]"] by simp
  show ?thesis
  proof (cases "a \<in> set (map u_id (users s))")
    case True
    then obtain ag where ag: "User_findById (users s) a = Some ag" using User_findById_ex by blast
    have "u_id ag = a" using User_findById_Some[OF ag] by simp
    with True valid none pi k ag avg len show ?thesis
      by (simp add: submitRating_def Rating_save_ok Let_def RatingSubmitted_def reply_def)
  next
    case False
    then have "User_findById (users s) a = None" by (simp add: User_findById_None)
    with False valid none pi k show ?thesis
      by (simp add: submitRating_def Rating_save_ok Let_def Unexpected_def)
  qed
qed







section \<open>What a handler does to the store\<close>

lemma createRequest_db_cases:
  "db (createRequest now t env s u a p) = s \<or>
   (\<exists>x y. a = Some x \<and> p = Some y \<and> \<not> has_request s u x y
      \<and> db (createRequest now t env s u a p) = s\<lparr>contactRequests := contactRequests s @ [newRequest u x y now]\<rparr>)"
proof (cases "missing a \<or> missing p")
  case True
  then show ?thesis by (simp add: createRequest_missing reply_def)
next
  case False
  then obtain x y where xy: "a = Some x" "p = Some y" "x \<noteq> []" "y \<noteq> []"
    by (auto simp: missing_def split: option.splits)
  show ?thesis
  proof (cases "has_request s u x y")
    case True
    with xy show ?thesis by (simp add: createRequest_duplicate reply_def)
  next
    case fresh: False
    show ?thesis
    proof (cases "u \<in> set (map u_id (users s)) \<and> x \<in> set (map u_id (users s)) \<and> y \<in> set (map p_id (properties s))")
      case True
      with xy fresh show ?thesis using createRequest_success(2)[of x y s u now t env] by simp
    next
      case False
      with xy fresh show ?thesis using createRequest_notfound[of x y s u now t env] by (auto simp: reply_def)
    qed
  qed
qed

lemma submitRating_db_cases:
  "db (submitRating s u a v c p) = s \<or>
   (\<exists>y k. p = Some y \<and> \<not> has_rating s u a y
      \<and> ratings (db (submitRating s u a v c p)) = ratings s @ [newRating u a y k c]
      \<and> contactRequests (db (submitRating s u a v c p)) = contactRequests s)"
proof (cases "\<not> truthy v \<or> js_lt v (JNumber (Num 1)) \<or> js_lt (JNumber (Num 5)) v")
  case True
  then show ?thesis by (simp add: submitRating_invalid reply_def)
next
  case valid: False
  show ?thesis
  proof (cases "Rating_findOne (ratings s) u a p")
    case (Some r)
    with valid show ?thesis by (simp add: submitRating_def reply_def)
  next
    case None
    show ?thesis
    proof (cases "Rating_save (ratings s) \<lparr>d_client = u, d_agent = a, d_property = p, d_rating = parseInt v, d_comment = c\<rparr>")
      case (Inl e)
      with valid None show ?thesis by (simp add: submitRating_def)
    next
      case (Inr saved)
      then obtain y x where y: "p = Some y" and x: "parseInt v = Num x" "x = of_int \<lfloor>x\<rfloor>" "1 \<le> x" "x \<le> 5"
        by (auto simp: Rating_save_def split: option.splits jsnum.splits if_splits)
      have fresh: "\<not> has_rating s u a y" using None y by (simp add: Rating_findOne_None)
      have k: "1 \<le> \<lfloor>x\<rfloor>" "\<lfloor>x\<rfloor> \<le> 5" using x by (simp_all add: le_floor_iff floor_le_iff)
      have pi: "parseInt v = Num (of_int \<lfloor>x\<rfloor>)" using x by simp
      show ?thesis
        using submitRating_accepted[OF valid pi k fresh, of c] y fresh
        by (auto simp: reply_def)
    qed
  qed
qed

lemma distinct_snoc_map: "distinct (map f (xs @ [x])) \<longleftrightarrow> distinct (map f xs) \<and> f x \<notin> f ` set xs"
  by auto

lemma fresh_request_triple: "\<not> has_request s u x y \<Longrightarrow> cr_triple (newRequest u x y now) \<notin> cr_triple ` set (contactRequests s)"
  by (auto simp: has_request_def cr_triple_def newRequest_def)

lemma fresh_rating_triple: "\<not> has_rating s u a y \<Longrightarrow> r_triple (newRating u a y k c) \<notin> r_triple ` set (ratings s)"
  by (auto simp: has_rating_def r_triple_def newRating_def)



text \<open>
  A string with no numeric value is not rejected by the validation, since every comparison
  with \<^verbatim>\<open>NaN\<close> is false; \<^verbatim>\<open>parseInt\<close> of it is \<^verbatim>\<open>NaN\<close>, which the store refuses, and
  the response is the generic failure.
\<close>

lemma non_numeric_string:
  "ToNumber (JString ''abc'') = NaN
   \<and> \<not> invalid_rating (JString ''abc'')
   \<and> response (submitRating exStore ''c1'' ''a1'' (JString ''abc'') None (Some ''p2'')) = Unexpected
   \<and> db (submitRating exStore ''c1'' ''a1'' (JString ''abc'') None (Some ''p2'')) = exStore"
  by code_simp

section \<open>One accepted rating\<close>








section \<open>The notification loop\<close>

lemma sendAll_concat: "sendAll t mk es tr = tr @ concat (map (\<lambda>e. sendOne t (mk e)) es)"
  by (induction es arbitrary: tr) auto

lemma attempts_append: "attempts (xs @ ys) = attempts xs @ attempts ys"
  by (induction xs rule: attempts.induct) auto

lemma logged_append: "logged (xs @ ys) = logged xs + logged ys"
  by (induction xs rule: logged.induct) auto

lemma attempts_sendAll:
  "attempts (concat (map (\<lambda>e. sendOne (Some send) (mk e)) es)) = map (\<lambda>e. (mail_to (mk e), send (mk e))) es"
  by (induction es) (auto simp: attempts_append sendOne_def)

lemma logged_sendAll:
  "logged (concat (map (\<lambda>e. sendOne (Some send) (mk e)) es)) = length (filter (\<lambda>e. \<not> send (mk e)) es)"
  by (induction es) (auto simp: logged_append sendOne_def)

lemma logged_sendAll_None:
  "logged (concat (map (\<lambda>e. sendOne None (mk e)) es)) = length es"
  "attempts (concat (map (\<lambda>e. sendOne None (mk e)) es)) = []"
  by (induction es) (auto simp: logged_append attempts_append sendOne_def)

lemma createRequest_trace:
  assumes "a \<noteq> []" "p \<noteq> []" "\<not> has_request s u a p"
    and "u \<in> set (map u_id (users s))" "a \<in> set (map u_id (users s))" "p \<in> set (map p_id (properties s))"
  shows "\<exists>cl ag pr. trace (createRequest now t env s u (Some a) (Some p)) =
           concat (map (\<lambda>e. sendOne t (notification env cl ag pr now e)) adminEmails)"
proof -
  have none: "ContactRequest_findOne (contactRequests s) u a p = None"
    using assms(3) by (simp add: ContactRequest_findOne_None)
  from User_findById_ex[OF assms(4)] obtain cl where cl: "User_findById (users s) u = Some cl" ..
  from User_findById_ex[OF assms(5)] obtain ag where ag: "User_findById (users s) a = Some ag" ..
  from assms(6) obtain pr where pr: "Property_findById (properties s) p = Some pr"
    using Property_findById_None[of "properties s" p] by (cases "Property_findById (properties s) p") auto
  have "trace (createRequest now t env s u (Some a) (Some p)) =
           concat (map (\<lambda>e. sendOne t (notification env cl ag pr now e)) adminEmails)"
    using assms(1,2) none cl ag pr
    by (simp add: createRequest_def missing_def Let_def sendAll_concat)
  then show ?thesis by blast
qed

lemma createRequest_same_store:
  "response (createRequest now t env s u agentId propertyId) = response (createRequest now t' env s u agentId propertyId)
   \<and> db (createRequest now t env s u agentId propertyId) = db (createRequest now t' env s u agentId propertyId)"
  by (simp add: createRequest_def reply_def Let_def split: option.splits)

section \<open>The dashboard's filter\<close>






lemma missing_iff: "missing x \<longleftrightarrow> (case x of None \<Rightarrow> True | Some i \<Rightarrow> i = [])"
  by (simp add: missing_def)










section \<open>The claims\<close>

lemmas ex_defs = exStore_def exClient_def exAgent_def exAgent2_def exProperty_def exProperty2_def





text \<open>
  Claim C1. Sequential uniqueness: from a store in which no two contact requests and no
  two ratings share a (client, agent, property) triple, one run of \<open>createRequest\<close> and
  one run of \<open>submitRating\<close>, on any input, each leave a store with the same property;
  and a request or rating whose triple is already recorded leaves the store as it was.
\<close>

theorem uniqueness_preserved:
  assumes "unique_triples s"
  shows "unique_triples (db (createRequest now t env s u agentId propertyId))
       \<and> unique_triples (db (submitRating s u' a' v c p'))
       \<and> (has_request s u x y \<longrightarrow> db (createRequest now t env s u (Some x) (Some y)) = s)
       \<and> (has_rating s u' a' y' \<longrightarrow> db (submitRating s u' a' v c (Some y')) = s)"
proof (intro conjI impI)
  show "unique_triples (db (createRequest now t env s u agentId propertyId))"
    using createRequest_db_cases[of now t env s u agentId propertyId] assms
    by (auto simp: unique_triples_def dest: fresh_request_triple)
  show "unique_triples (db (submitRating s u' a' v c p'))"
    using submitRating_db_cases[of s u' a' v c p'] assms
    by (auto simp: unique_triples_def dest: fresh_rating_triple)
  show "db (createRequest now t env s u (Some x) (Some y)) = s" if "has_request s u x y"
    using createRequest_db_cases[of now t env s u "Some x" "Some y"] that by auto
  show "db (submitRating s u' a' v c (Some y')) = s" if "has_rating s u' a' y'"
    using submitRating_db_cases[of s u' a' v c "Some y'"] that by auto
qed

text \<open>The example store has unique triples; a fresh triple is inserted without breaking
  that, and the recorded triple is rejected by both handlers with the store unchanged.\<close>

theorem uniqueness_preserved_witness:
  "unique_triples exStore
   \<and> unique_triples (db (createRequest 7 None None exStore ''c1'' (Some ''a1'') (Some ''p2'')))
   \<and> unique_triples (db (submitRating exStore ''c1'' ''a1'' (JNumber (Num 4)) None (Some ''p2'')))
   \<and> has_request exStore ''c1'' ''a1'' ''p1''
   \<and> db (createRequest 7 None None exStore ''c1'' (Some ''a1'') (Some ''p1'')) = exStore
   \<and> has_rating exStore ''c1'' ''a1'' ''p1''
   \<and> db (submitRating exStore ''c1'' ''a1'' (JNumber (Num 4)) None (Some ''p1'')) = exStore"
proof -
  have u: "unique_triples exStore"
    by (simp add: unique_triples_def exStore_def cr_triple_def r_triple_def)
  have hq: "has_request exStore ''c1'' ''a1'' ''p1''"
    by (simp add: has_request_def exStore_def)
  have hr: "has_rating exStore ''c1'' ''a1'' ''p1''"
    by (simp add: has_rating_def exStore_def)
  show ?thesis
    using u hq hr
      uniqueness_preserved[OF u, of 7 None None "''c1''" "Some ''a1''" "Some ''p2''" "''c1''" "''a1''"
        "JNumber (Num 4)" None "Some ''p2''" "''a1''" "''p1''" "''p1''"]
    by simp
qed










text \<open>
  Claim C6. The notification is best-effort and isolated per recipient: the loop is the
  concatenation, in order, of one independent send per address; the response and the store
  do not depend on the transport; and for a fresh triple of existing documents the
  response is success with the request persisted, \<^verbatim>\<open>sendMail\<close> is called for each address
  of the fixed list in order whatever the other calls did, every failed call is logged,
  and a transport that always fails (or is absent) changes nothing but the log.
\<close>

theorem notification_best_effort:
  "sendAll t mk es [] = concat (map (\<lambda>e. sendOne t (mk e)) es)
   \<and> response (createRequest now t env s u agentId propertyId)
       = response (createRequest now t' env s u agentId propertyId)
   \<and> db (createRequest now t env s u agentId propertyId)
       = db (createRequest now t' env s u agentId propertyId)
   \<and> (a \<noteq> [] \<and> p \<noteq> [] \<and> \<not> has_request s u a p
        \<and> u \<in> set (map u_id (users s)) \<and> a \<in> set (map u_id (users s))
        \<and> p \<in> set (map p_id (properties s)) \<longrightarrow>
      response (createRequest now t env s u (Some a) (Some p)) = RequestSent
      \<and> db (createRequest now t env s u (Some a) (Some p)) =
          s\<lparr>contactRequests := contactRequests s @ [newRequest u a p now]\<rparr>
      \<and> map fst (attempts (trace (createRequest now (Some send) env s u (Some a) (Some p)))) = adminEmails
      \<and> logged (trace (createRequest now (Some send) env s u (Some a) (Some p)))
          = length (filter (\<lambda>x. \<not> snd x)
              (attempts (trace (createRequest now (Some send) env s u (Some a) (Some p)))))
      \<and> attempts (trace (createRequest now (Some (\<lambda>m. False)) env s u (Some a) (Some p)))
          = map (\<lambda>e. (e, False)) adminEmails
      \<and> logged (trace (createRequest now (Some (\<lambda>m. False)) env s u (Some a) (Some p)))
          = length adminEmails
      \<and> logged (trace (createRequest now None env s u (Some a) (Some p))) = length adminEmails)"
proof (intro conjI impI)
  show "sendAll t mk es [] = concat (map (\<lambda>e. sendOne t (mk e)) es)"
    by (simp add: sendAll_concat)
  show "response (createRequest now t env s u agentId propertyId)
       = response (createRequest now t' env s u agentId propertyId)"
    using createRequest_same_store by blast
  show "db (createRequest now t env s u agentId propertyId)
       = db (createRequest now t' env s u agentId propertyId)"
    using createRequest_same_store by blast
next
  assume h: "a \<noteq> [] \<and> p \<noteq> [] \<and> \<not> has_request s u a p
        \<and> u \<in> set (map u_id (users s)) \<and> a \<in> set (map u_id (users s))
        \<and> p \<in> set (map p_id (properties s))"
  then have hs: "a \<noteq> []" "p \<noteq> []" "\<not> has_request s u a p"
    "u \<in> set (map u_id (users s))" "a \<in> set (map u_id (users s))" "p \<in> set (map p_id (properties s))"
    by simp_all
  show "response (createRequest now t env s u (Some a) (Some p)) = RequestSent"
    by (rule createRequest_success(1)[OF hs])
  show "db (createRequest now t env s u (Some a) (Some p)) =
          s\<lparr>contactRequests := contactRequests s @ [newRequest u a p now]\<rparr>"
    by (rule createRequest_success(2)[OF hs])
  from createRequest_trace[OF hs, of now "Some send" env] obtain cl ag pr where
    tr: "trace (createRequest now (Some send) env s u (Some a) (Some p)) =
           concat (map (\<lambda>e. sendOne (Some send) (notification env cl ag pr now e)) adminEmails)"
    by blast
  have to: "\<And>e. mail_to (notification env cl ag pr now e) = e" by (simp add: notification_def)
  show "map fst (attempts (trace (createRequest now (Some send) env s u (Some a) (Some p)))) = adminEmails"
    by (simp add: tr attempts_sendAll to comp_def)
  show "logged (trace (createRequest now (Some send) env s u (Some a) (Some p)))
          = length (filter (\<lambda>x. \<not> snd x)
              (attempts (trace (createRequest now (Some send) env s u (Some a) (Some p)))))"
    by (simp add: tr attempts_sendAll logged_sendAll filter_map comp_def)
  from createRequest_trace[OF hs, of now "Some (\<lambda>m. False)" env] obtain cl' ag' pr' where
    tr': "trace (createRequest now (Some (\<lambda>m. False)) env s u (Some a) (Some p)) =
           concat (map (\<lambda>e. sendOne (Some (\<lambda>m. False)) (notification env cl' ag' pr' now e)) adminEmails)"
    by blast
  show "attempts (trace (createRequest now (Some (\<lambda>m. False)) env s u (Some a) (Some p)))
          = map (\<lambda>e. (e, False)) adminEmails"
    by (simp add: tr' attempts_sendAll notification_def)
  show "logged (trace (createRequest now (Some (\<lambda>m. False)) env s u (Some a) (Some p)))
          = length adminEmails"
    by (simp add: tr' logged_sendAll)
  from createRequest_trace[OF hs, of now None env] obtain cl'' ag'' pr'' where
    tr'': "trace (createRequest now None env s u (Some a) (Some p)) =
           concat (map (\<lambda>e. sendOne None (notification env cl'' ag'' pr'' now e)) adminEmails)"
    by blast
  show "logged (trace (createRequest now None env s u (Some a) (Some p))) = length adminEmails"
    by (simp add: tr'' logged_sendAll_None)
qed

text \<open>
  On the example store, a transport that always fails, and one that fails for the first
  address only: the second address is still sent to.
\<close>

theorem notification_best_effort_witness:
  "''a1'' \<noteq> [] \<and> ''p2'' \<noteq> [] \<and> \<not> has_request exStore ''c1'' ''a1'' ''p2''
   \<and> ''c1'' \<in> set (map u_id (users exStore)) \<and> ''a1'' \<in> set (map u_id (users exStore))
   \<and> ''p2'' \<in> set (map p_id (properties exStore))
   \<and> response (createRequest 7 (Some (\<lambda>m. False)) None exStore ''c1'' (Some ''a1'') (Some ''p2'')) = RequestSent
   \<and> db (createRequest 7 (Some (\<lambda>m. False)) None exStore ''c1'' (Some ''a1'') (Some ''p2'')) =
          exStore\<lparr>contactRequests := contactRequests exStore @ [newRequest ''c1'' ''a1'' ''p2'' 7]\<rparr>
   \<and> attempts (trace (createRequest 7 (Some (\<lambda>m. False)) None exStore ''c1'' (Some ''a1'') (Some ''p2'')))
        = [(''anthonyajibola65@gmail.com'', False), (''Kennethuwota12@gmail.com'', False)]
   \<and> logged (trace (createRequest 7 (Some (\<lambda>m. False)) None exStore ''c1'' (Some ''a1'') (Some ''p2''))) = 2
   \<and> attempts (trace (createRequest 7 (Some (\<lambda>m. mail_to m \<noteq> ''anthonyajibola65@gmail.com'')) None exStore
                         ''c1'' (Some ''a1'') (Some ''p2'')))
        = [(''anthonyajibola65@gmail.com'', False), (''Kennethuwota12@gmail.com'', True)]"
proof -
  have h: "''a1'' \<noteq> [] \<and> ''p2'' \<noteq> [] \<and> \<not> has_request exStore ''c1'' ''a1'' ''p2''
        \<and> ''c1'' \<in> set (map u_id (users exStore)) \<and> ''a1'' \<in> set (map u_id (users exStore))
        \<and> ''p2'' \<in> set (map p_id (properties exStore))"
    by (simp add: has_request_def ex_defs)
  have one: "attempts (trace (createRequest 7 (Some (\<lambda>m. mail_to m \<noteq> ''anthonyajibola65@gmail.com'')) None exStore
                         ''c1'' (Some ''a1'') (Some ''p2'')))
        = [(''anthonyajibola65@gmail.com'', False), (''Kennethuwota12@gmail.com'', True)]"
    by (simp add: createRequest_def missing_def ContactRequest_findOne_def User_findById_def
        Property_findById_def ex_defs adminEmails_def sendOne_def notification_def)
  show ?thesis
    using h one
      notification_best_effort[of "Some (\<lambda>m. False)" "\<lambda>e. undefined" "[]" 7 None exStore "''c1''"
        "Some ''a1''" "Some ''p2''" "Some (\<lambda>m. False)" "''a1''" "''p2''" "\<lambda>m. False"]
    by (simp add: adminEmails_def)
qed










end
